theory Spec2Isabelle
  imports Complex_Main "HOL-Library.Sublist" "HOL-Library.AList"
begin

section \<open>The matching engine of the resume analyzer\<close>

text \<open>
  A shallow embedding of \<^verbatim>\<open>src/matching/similarity_scorer.py\<close>,
  \<^verbatim>\<open>src/matching/embeddings.py\<close>, \<^verbatim>\<open>src/matching/ranking_algorithm.py\<close> and
  \<^verbatim>\<open>src/matching/job_matcher.py\<close>, with the fields of \<^verbatim>\<open>src/models\<close> these read.

  Conventions of the embedding:
  \<^item> a Python \<^verbatim>\<open>float\<close> is a \<^typ>\<open>real\<close>: arithmetic is exact, and rounding, infinities
    and NaN are outside the model. The one exception is \<^verbatim>\<open>cosine_similarity\<close>, which is
    also given on floating-point values, with numpy's arithmetic as a parameter;
  \<^item> a Python \<^verbatim>\<open>str\<close> is a \<^typ>\<open>string\<close> of ASCII characters; \<^verbatim>\<open>lower\<close>, \<^verbatim>\<open>isspace\<close> and
    the regular expression classes act on ASCII as Python does;
  \<^item> a raised exception is the \<open>Inl\<close> branch of a sum; a function that cannot raise
    returns its value directly;
  \<^item> \<^verbatim>\<open>logger\<close> calls write to the process log and return nothing: they are left out;
  \<^item> a method \<^verbatim>\<open>_name\<close> is the constant \<open>name\<close> (an Isabelle name starts with a letter);
    a field whose name is used by two classes carries a suffix in one of them.
\<close>

subsection \<open>Exceptions\<close>

datatype py_exception =
    AttributeError
  | ValueError
  | KeyError string
  | APIError

subsection \<open>Strings\<close>

text \<open>The lower-case letter of an upper-case ASCII letter; any other character is kept.\<close>

definition lower_char :: "char \<Rightarrow> char" where
  "lower_char c =
     (case map_of (zip ''ABCDEFGHIJKLMNOPQRSTUVWXYZ'' ''abcdefghijklmnopqrstuvwxyz'') c of
        Some l \<Rightarrow> l
      | None \<Rightarrow> c)"

text \<open>\<^verbatim>\<open>s.lower()\<close>\<close>

definition lower :: "string \<Rightarrow> string" where
  "lower s = map lower_char s"

text \<open>\<^verbatim>\<open>c.isspace()\<close> on ASCII: tab, line feed, vertical tab, form feed, carriage return,
  the four separators 28 to 31, and the space.\<close>

definition isspace :: "char \<Rightarrow> bool" where
  "isspace c = (let n = (of_char c :: nat) in (9 \<le> n \<and> n \<le> 13) \<or> (28 \<le> n \<and> n \<le> 32))"

definition isdigit :: "char \<Rightarrow> bool" where
  "isdigit c = (48 \<le> (of_char c :: nat) \<and> (of_char c :: nat) \<le> 57)"

text \<open>\<^verbatim>\<open>s.strip()\<close>\<close>

definition strip :: "string \<Rightarrow> string" where
  "strip s = rev (dropWhile isspace (rev (dropWhile isspace s)))"

text \<open>\<^verbatim>\<open>sub in s\<close> on strings: \<open>sub\<close> occurs in \<open>s\<close> as a contiguous run.\<close>

fun py_in :: "string \<Rightarrow> string \<Rightarrow> bool" where
  "py_in sub [] = (sub = [])"
| "py_in sub (c # cs) = (prefix sub (c # cs) \<or> py_in sub cs)"

text \<open>\<^verbatim>\<open>sep.join(xs)\<close>\<close>

fun join :: "string \<Rightarrow> string list \<Rightarrow> string" where
  "join sep [] = []"
| "join sep [x] = x"
| "join sep (x # y # ys) = x @ sep @ join sep (y # ys)"

subsection \<open>Dictionaries and sets\<close>

text \<open>
  A \<^verbatim>\<open>dict\<close> is an association list with distinct keys, in insertion order: storing
  under a key that is present replaces the value in place, as \<^const>\<open>AList.update\<close> does.
  A \<^verbatim>\<open>set\<close> built by a comprehension is the list of its distinct elements; Python leaves
  the iteration order of a set open, and no theorem below depends on it.
\<close>

type_synonym 'v pydict = "(string \<times> 'v) list"

text \<open>\<^verbatim>\<open>d.get(k, default)\<close>\<close>

definition dict_get :: "'v pydict \<Rightarrow> string \<Rightarrow> 'v \<Rightarrow> 'v" where
  "dict_get d k dflt = (case map_of d k of Some v \<Rightarrow> v | None \<Rightarrow> dflt)"

text \<open>\<^verbatim>\<open>d[k]\<close>\<close>

definition dict_item :: "'v pydict \<Rightarrow> string \<Rightarrow> py_exception + 'v" where
  "dict_item d k = (case map_of d k of Some v \<Rightarrow> Inr v | None \<Rightarrow> Inl (KeyError k))"

text \<open>\<^verbatim>\<open>{s.lower() for s in xs}\<close>\<close>

definition lower_set :: "string list \<Rightarrow> string list" where
  "lower_set xs = remdups (map lower xs)"

text \<open>\<^verbatim>\<open>{s.lower(): s for s in xs}\<close>\<close>

definition lower_dict :: "string list \<Rightarrow> string pydict" where
  "lower_dict xs = foldl (\<lambda>d s. AList.update (lower s) s d) [] xs"

text \<open>\<^verbatim>\<open>xs[:k]\<close>: a negative \<open>k\<close> counts from the end.\<close>

definition py_slice_to :: "'a list \<Rightarrow> int \<Rightarrow> 'a list" where
  "py_slice_to xs k = (if 0 \<le> k then take (nat k) xs else take (nat (int (length xs) + k)) xs)"

text \<open>\<^verbatim>\<open>sorted(xs, key=k, reverse=True)\<close>: the list is reversed, sorted stably in
  ascending order and reversed again, so equal keys keep the order of the input.\<close>

definition py_sorted_reverse :: "('a \<Rightarrow> 'k::linorder) \<Rightarrow> 'a list \<Rightarrow> 'a list" where
  "py_sorted_reverse k xs = rev (sort_key k (rev xs))"

subsection \<open>Arrays: \<^verbatim>\<open>similarity_scorer.py\<close>\<close>

text \<open>
  A numpy array of one or of two dimensions; \<^verbatim>\<open>flatten\<close> lays the rows of the second
  end to end. A value that may be \<^verbatim>\<open>None\<close> instead of an array is an \<open>ndarray option\<close>.
  The type of the elements is left open: \<open>ndarray\<close> is the array of numbers read as reals,
  and the arrays of floating-point values come further down.
\<close>

datatype 'a np_array = Vec "'a list" | Mat "'a list list"

type_synonym ndarray = "real np_array"

fun ndim :: "'a np_array \<Rightarrow> nat" where
  "ndim (Vec xs) = 1"
| "ndim (Mat rows) = 2"

fun flatten :: "'a np_array \<Rightarrow> 'a list" where
  "flatten (Vec xs) = xs"
| "flatten (Mat rows) = concat rows"

text \<open>\<^verbatim>\<open>np.zeros(n)\<close>\<close>

definition np_zeros :: "nat \<Rightarrow> ndarray" where
  "np_zeros n = Vec (replicate n 0)"

text \<open>\<^verbatim>\<open>np.dot\<close> of two one-dimensional arrays raises on a length mismatch.\<close>

definition np_dot :: "real list \<Rightarrow> real list \<Rightarrow> py_exception + real" where
  "np_dot u v =
     (if length u \<noteq> length v then Inl ValueError
      else Inr (sum_list (map (\<lambda>(x, y). x * y) (zip u v))))"

text \<open>\<^verbatim>\<open>np.linalg.norm\<close>\<close>

definition np_linalg_norm :: "real list \<Rightarrow> real" where
  "np_linalg_norm u = sqrt (sum_list (map (\<lambda>x. x * x) u))"

text \<open>\<^verbatim>\<open>SimilarityScorer.cosine_similarity\<close>. Reading \<^verbatim>\<open>.ndim\<close> of \<^verbatim>\<open>None\<close> raises. An array
  with \<^verbatim>\<open>ndim > 1\<close> is flattened and one with \<^verbatim>\<open>ndim = 1\<close> is taken as it is: both are
  \<^const>\<open>flatten\<close>, the identity on \<^const>\<open>Vec\<close>. This is the function on exact numbers, with
  which the matcher is read; what it does on floating-point values, where the guard and the
  clamp matter, is the subject of the next subsection.\<close>

definition cosine_similarity :: "ndarray option \<Rightarrow> ndarray option \<Rightarrow> py_exception + real" where
  "cosine_similarity a b =
     (case a of None \<Rightarrow> Inl AttributeError | Some vec1 \<Rightarrow>
      (case b of None \<Rightarrow> Inl AttributeError | Some vec2 \<Rightarrow>
        (let v1 = flatten vec1;
             v2 = flatten vec2
         in case np_dot v1 v2 of
              Inl e \<Rightarrow> Inl e
            | Inr dot_product \<Rightarrow>
                (let norm1 = np_linalg_norm v1; norm2 = np_linalg_norm v2
                 in if norm1 = 0 \<or> norm2 = 0 then Inr 0
                    else Inr (max 0 (min 1 (dot_product / (norm1 * norm2))))))))"

subsection \<open>Floating-point values: \<^verbatim>\<open>similarity_scorer.py\<close> as numpy runs it\<close>

text \<open>
  The guard and the clamp of \<^verbatim>\<open>cosine_similarity\<close> are there for values that exact
  arithmetic does not have, so the function is given a second time with the floats as they
  are. A value of \<^verbatim>\<open>np.float32\<close>, \<^verbatim>\<open>np.float64\<close> or \<^verbatim>\<open>float\<close> is a finite number, the
  negative zero, an infinity or NaN; \<open>Finite 0\<close> is the positive zero.
\<close>

datatype pyfloat = Finite real | NegZero | PosInf | NegInf | NaN

text \<open>The place of a float in the order of the comparisons: none for NaN, the infinities
  below and above every finite number, the two zeros at one place.\<close>

fun float_place :: "pyfloat \<Rightarrow> (int \<times> real) option" where
  "float_place NaN = None"
| "float_place NegInf = Some (- 1, 0)"
| "float_place NegZero = Some (0, 0)"
| "float_place (Finite x) = Some (0, x)"
| "float_place PosInf = Some (1, 0)"

text \<open>\<^verbatim>\<open>x == y\<close>, \<^verbatim>\<open>x < y\<close> and \<^verbatim>\<open>x > y\<close> on floats: all false when a side is NaN.\<close>

definition float_eq :: "pyfloat \<Rightarrow> pyfloat \<Rightarrow> bool" where
  "float_eq x y =
     (case float_place x of None \<Rightarrow> False | Some p \<Rightarrow>
      (case float_place y of None \<Rightarrow> False | Some q \<Rightarrow> p = q))"

definition float_lt :: "pyfloat \<Rightarrow> pyfloat \<Rightarrow> bool" where
  "float_lt x y =
     (case float_place x of None \<Rightarrow> False | Some (i, a) \<Rightarrow>
      (case float_place y of None \<Rightarrow> False | Some (j, b) \<Rightarrow> i < j \<or> (i = j \<and> a < b)))"

definition float_gt :: "pyfloat \<Rightarrow> pyfloat \<Rightarrow> bool" where
  "float_gt x y = float_lt y x"

text \<open>The builtins \<^verbatim>\<open>min(a, b)\<close> and \<^verbatim>\<open>max(a, b)\<close>: the first argument stays unless the
  second compares smaller, respectively greater, which a NaN never does.\<close>

definition py_min :: "pyfloat \<Rightarrow> pyfloat \<Rightarrow> pyfloat" where
  "py_min a b = (if float_lt b a then b else a)"

definition py_max :: "pyfloat \<Rightarrow> pyfloat \<Rightarrow> pyfloat" where
  "py_max a b = (if float_gt b a then b else a)"

text \<open>
  What numpy computes in floating point: \<^verbatim>\<open>np.dot\<close> of two one-dimensional arrays of one
  length, \<^verbatim>\<open>np.linalg.norm\<close> of such an array, and the product \<^verbatim>\<open>*\<close> and the quotient
  \<^verbatim>\<open>/\<close> of two scalars. The results depend on the element type (\<^verbatim>\<open>generate_embedding\<close>
  builds \<^verbatim>\<open>float32\<close> arrays from the replies and \<^verbatim>\<open>float64\<close> zeros), on the rounding and
  on the order in which the library adds. They are a parameter of the model, of which
  nothing is assumed. With numpy's error handling as the repository leaves it, an
  overflow, a division by zero and an invalid operation give an infinity or NaN and a
  warning, and raise nothing.
\<close>

record numpy =
  dot :: "pyfloat list \<Rightarrow> pyfloat list \<Rightarrow> pyfloat"
  linalg_norm :: "pyfloat list \<Rightarrow> pyfloat"
  multiply :: "pyfloat \<Rightarrow> pyfloat \<Rightarrow> pyfloat"
  true_divide :: "pyfloat \<Rightarrow> pyfloat \<Rightarrow> pyfloat"

text \<open>
  \<^verbatim>\<open>SimilarityScorer.cosine_similarity\<close> on arrays of floats. \<^verbatim>\<open>np.dot\<close> raises on two
  lengths that differ and is the parameter otherwise. \<^verbatim>\<open>norm1 == 0\<close> compares with the
  integer \<^verbatim>\<open>0\<close>, which is \<^verbatim>\<open>0.0\<close> for the comparison; the \<^verbatim>\<open>return 0.0\<close> of the guard and the
  bounds \<^verbatim>\<open>0.0\<close> and \<^verbatim>\<open>1.0\<close> of the clamp are the literals.
\<close>

definition cosine_similarity_float ::
  "numpy \<Rightarrow> pyfloat np_array option \<Rightarrow> pyfloat np_array option \<Rightarrow> py_exception + pyfloat" where
  "cosine_similarity_float np a b =
     (case a of None \<Rightarrow> Inl AttributeError | Some vec1 \<Rightarrow>
      (case b of None \<Rightarrow> Inl AttributeError | Some vec2 \<Rightarrow>
        (let v1 = flatten vec1;
             v2 = flatten vec2
         in if length v1 \<noteq> length v2 then Inl ValueError
            else
              (let dot_product = dot np v1 v2;
                   norm1 = linalg_norm np v1;
                   norm2 = linalg_norm np v2
               in if float_eq norm1 (Finite 0) \<or> float_eq norm2 (Finite 0) then Inr (Finite 0)
                  else
                    (let similarity = true_divide np dot_product (multiply np norm1 norm2)
                     in Inr (py_max (Finite 0) (py_min (Finite 1) similarity)))))))"

text \<open>
  The arithmetic without rounding, which is how the rest of this theory reads the floats:
  on finite values the results are those of the reals, and NaN stands where an argument is
  not finite or a divisor is zero.
\<close>

fun float_real :: "pyfloat \<Rightarrow> real option" where
  "float_real (Finite x) = Some x"
| "float_real NegZero = Some 0"
| "float_real PosInf = None"
| "float_real NegInf = None"
| "float_real NaN = None"

fun float_reals :: "pyfloat list \<Rightarrow> real list option" where
  "float_reals [] = Some []"
| "float_reals (x # xs) =
     (case float_real x of None \<Rightarrow> None | Some r \<Rightarrow>
      (case float_reals xs of None \<Rightarrow> None | Some rs \<Rightarrow> Some (r # rs)))"

definition exact_numpy :: numpy where
  "exact_numpy =
     \<lparr>dot = (\<lambda>u v. case float_reals u of None \<Rightarrow> NaN | Some x \<Rightarrow>
                   (case float_reals v of None \<Rightarrow> NaN | Some y \<Rightarrow>
                    (case np_dot x y of Inl e \<Rightarrow> NaN | Inr d \<Rightarrow> Finite d))),
      linalg_norm = (\<lambda>u. case float_reals u of None \<Rightarrow> NaN
                         | Some x \<Rightarrow> Finite (np_linalg_norm x)),
      multiply = (\<lambda>a b. case float_real a of None \<Rightarrow> NaN | Some x \<Rightarrow>
                        (case float_real b of None \<Rightarrow> NaN | Some y \<Rightarrow> Finite (x * y))),
      true_divide = (\<lambda>a b. case float_real a of None \<Rightarrow> NaN | Some x \<Rightarrow>
                           (case float_real b of None \<Rightarrow> NaN | Some y \<Rightarrow>
                              if y = 0 then NaN else Finite (x / y)))\<rparr>"

subsection \<open>Embeddings: \<^verbatim>\<open>embeddings.py\<close>\<close>

record embedding_generator =
  provider :: string
  model :: string
  dimension :: nat

text \<open>\<^verbatim>\<open>EmbeddingGenerator()\<close>\<close>

definition EmbeddingGenerator :: embedding_generator where
  "EmbeddingGenerator =
     \<lparr>provider = ''openai'', model = ''text-embedding-3-small'', dimension = 1536\<rparr>"

text \<open>
  The remote call \<^verbatim>\<open>openai.embeddings.create(model=..., input=...)\<close> followed by
  \<^verbatim>\<open>response.data[0].embedding\<close>: a parameter of the model, giving for a model name and
  an input text either the exception raised or the embedding returned.
\<close>

type_synonym embeddings_api = "string \<Rightarrow> string \<Rightarrow> py_exception + real list"

text \<open>\<^verbatim>\<open>EmbeddingGenerator.generate_embedding\<close>. The \<^verbatim>\<open>except\<close> clause turns every
  exception of the call into the zero vector; with another provider than \<^verbatim>\<open>openai\<close> the
  body falls through and returns \<^verbatim>\<open>None\<close>.\<close>

definition generate_embedding ::
  "embeddings_api \<Rightarrow> embedding_generator \<Rightarrow> string \<Rightarrow> ndarray option" where
  "generate_embedding api g text =
     (if text = [] \<or> strip text = [] then Some (np_zeros (dimension g))
      else if provider g = ''openai'' then
        (case api (model g) (take 8000 text) of
           Inr embedding \<Rightarrow> Some (Vec embedding)
         | Inl e \<Rightarrow> Some (np_zeros (dimension g)))
      else None)"

text \<open>\<^verbatim>\<open>EmbeddingGenerator.generate_batch_embeddings\<close>, before \<^verbatim>\<open>np.array\<close> packs the list.\<close>

definition generate_batch_embeddings ::
  "embeddings_api \<Rightarrow> embedding_generator \<Rightarrow> string list \<Rightarrow> ndarray option list" where
  "generate_batch_embeddings api g texts = map (generate_embedding api g) texts"

subsection \<open>The records of \<^verbatim>\<open>src/models\<close>\<close>

text \<open>
  Of \<^verbatim>\<open>Resume\<close> and \<^verbatim>\<open>Job\<close> the fields the matcher reads. An experience or an education
  entry is a dictionary of strings. \<^verbatim>\<open>MatchResult\<close> leaves out \<^verbatim>\<open>match_id\<close> and
  \<^verbatim>\<open>matched_date\<close>, which are drawn fresh for every object and read by no function here.
\<close>

record resume =
  resume_id :: string
  summary :: string
  experience :: "string pydict list"
  education :: "string pydict list"
  skills :: "string list"

record job =
  job_id :: string
  title :: string
  company :: string
  remote :: bool
  description :: string
  requirements :: string
  experience_required :: string
  education_required :: string
  required_skills :: "string list"

record match_result =
  resume_id_m :: string
  job_m :: "job option"
  overall_score :: real
  skills_match_score :: real
  experience_match_score :: real
  education_match_score :: real
  semantic_similarity_score :: real
  location_match_score :: real
  matched_skills :: "string list"
  missing_skills :: "string list"
  explanation :: string
  confidence_level :: string

text \<open>\<^verbatim>\<open>MatchResult()\<close>, every field at the default of the dataclass\<close>

definition MatchResult :: match_result where
  "MatchResult =
     \<lparr>resume_id_m = [], job_m = None, overall_score = 0, skills_match_score = 0,
      experience_match_score = 0, education_match_score = 0, semantic_similarity_score = 0,
      location_match_score = 0, matched_skills = [], missing_skills = [],
      explanation = [], confidence_level = ''Medium''\<rparr>"

subsection \<open>Ranking: \<^verbatim>\<open>ranking_algorithm.py\<close>\<close>

record ranking_weights =
  skills_w :: real
  experience_w :: real
  education_w :: real
  semantic_w :: real

text \<open>\<^verbatim>\<open>RankingWeights()\<close>, the value of \<^verbatim>\<open>self.default_weights\<close>\<close>

definition default_weights :: ranking_weights where
  "default_weights =
     \<lparr>skills_w = 0.35, experience_w = 0.25, education_w = 0.15, semantic_w = 0.25\<rparr>"

text \<open>\<^verbatim>\<open>RankingAlgorithm._get_weights\<close>: \<^verbatim>\<open>None\<close> and the empty dictionary are both false.\<close>

definition get_weights :: "real pydict option \<Rightarrow> ranking_weights" where
  "get_weights custom_weights =
     (case custom_weights of
        None \<Rightarrow> default_weights
      | Some cw \<Rightarrow>
          if cw = [] then default_weights
          else \<lparr>skills_w = dict_get cw ''skills'' (skills_w default_weights),
                experience_w = dict_get cw ''experience'' (experience_w default_weights),
                education_w = dict_get cw ''education'' (education_w default_weights),
                semantic_w = dict_get cw ''semantic'' (semantic_w default_weights)\<rparr>)"

text \<open>\<^verbatim>\<open>RankingAlgorithm._calculate_weighted_score\<close>\<close>

definition calculate_weighted_score :: "match_result \<Rightarrow> ranking_weights \<Rightarrow> real" where
  "calculate_weighted_score m weights =
     (let score = skills_match_score m * skills_w weights
                + experience_match_score m * experience_w weights
                + education_match_score m * education_w weights
                + semantic_similarity_score m * semantic_w weights
      in max 0 (min 100 score))"

text \<open>The body of the loop of \<^verbatim>\<open>rank_matches\<close>:
  \<^verbatim>\<open>match.overall_score = self._calculate_weighted_score(match, weights)\<close>\<close>

definition rescore :: "ranking_weights \<Rightarrow> match_result \<Rightarrow> match_result" where
  "rescore w m = m\<lparr>overall_score := calculate_weighted_score m w\<rparr>"

text \<open>\<^verbatim>\<open>RankingAlgorithm.rank_matches\<close>: every match gets its score overwritten, then the
  list is sorted on that score alone.\<close>

definition rank_matches :: "match_result list \<Rightarrow> real pydict option \<Rightarrow> match_result list" where
  "rank_matches matches custom_weights =
     (if matches = [] then []
      else
        (let w = get_weights custom_weights;
             rescored = map (rescore w) matches
         in py_sorted_reverse overall_score rescored))"

text \<open>\<^verbatim>\<open>RankingAlgorithm.get_top_k\<close>\<close>

definition get_top_k :: "match_result list \<Rightarrow> int \<Rightarrow> real \<Rightarrow> match_result list" where
  "get_top_k matches k threshold =
     (let filtered = filter (\<lambda>m. overall_score m \<ge> threshold) matches;
          ranked = rank_matches filtered None
      in py_slice_to ranked k)"

subsection \<open>The matcher: \<^verbatim>\<open>job_matcher.py\<close>\<close>

record matching_config =
  similarity_threshold :: real
  top_k :: int
  weights :: "real pydict"

text \<open>\<^verbatim>\<open>MatchingConfig(similarity_threshold, top_k, weights)\<close> with \<^verbatim>\<open>__post_init__\<close>, which
  fills in the weights when none are given and checks nothing.\<close>

definition MatchingConfig :: "real \<Rightarrow> int \<Rightarrow> real pydict option \<Rightarrow> matching_config" where
  "MatchingConfig threshold k w =
     \<lparr>similarity_threshold = threshold, top_k = k,
      weights = (case w of
                   None \<Rightarrow> [(''skills'', 0.35), (''experience'', 0.25),
                            (''education'', 0.15), (''semantic'', 0.25)]
                 | Some d \<Rightarrow> d)\<rparr>"

text \<open>\<^verbatim>\<open>MatchingConfig()\<close>\<close>

definition MatchingConfig_default :: matching_config where
  "MatchingConfig_default = MatchingConfig 0.7 10 None"

text \<open>Of the matcher object the two attributes that hold data; the scorer and the ranker
  have no state.\<close>

record job_matcher =
  config :: matching_config
  embedding_gen :: embedding_generator

text \<open>\<^verbatim>\<open>JobMatcher(config)\<close>\<close>

definition JobMatcher :: "matching_config option \<Rightarrow> job_matcher" where
  "JobMatcher c =
     \<lparr>config = (case c of None \<Rightarrow> MatchingConfig_default | Some cfg \<Rightarrow> cfg),
      embedding_gen = EmbeddingGenerator\<rparr>"

text \<open>The text of one experience entry in \<^verbatim>\<open>_prepare_resume_for_embedding\<close>\<close>

definition exp_text :: "string pydict \<Rightarrow> string" where
  "exp_text e =
     (let t = dict_get e ''title'' [] @ '' at '' @ dict_get e ''company'' []
      in case map_of e ''description'' of
           None \<Rightarrow> t
         | Some d \<Rightarrow> if d = [] then t else t @ ''. '' @ d)"

definition edu_text :: "string pydict \<Rightarrow> string" where
  "edu_text e = dict_get e ''degree'' [] @ '' from '' @ dict_get e ''institution'' []"

text \<open>\<^verbatim>\<open>JobMatcher._prepare_resume_for_embedding\<close>\<close>

definition prepare_resume_for_embedding :: "resume \<Rightarrow> string" where
  "prepare_resume_for_embedding r =
     (let parts1 = (if summary r \<noteq> [] then [''Summary: '' @ summary r] else []);
          parts2 = parts1 @
            (if skills r \<noteq> [] then [''Skills: '' @ join '', '' (skills r)] else []);
          parts3 = parts2 @
            (if experience r \<noteq> []
             then [''Experience: '' @ join '' '' (map exp_text (experience r))] else []);
          parts4 = parts3 @
            (if education r \<noteq> []
             then [''Education: '' @ join '' '' (map edu_text (education r))] else [])
      in join '' '' parts4)"

text \<open>\<^verbatim>\<open>JobMatcher._prepare_job_for_embedding\<close>\<close>

definition prepare_job_for_embedding :: "job \<Rightarrow> string" where
  "prepare_job_for_embedding j =
     (let parts1 = [''Title: '' @ title j, ''Company: '' @ company j];
          parts2 = parts1 @
            (if description j \<noteq> [] then [''Description: '' @ description j] else []);
          parts3 = parts2 @
            (if required_skills j \<noteq> []
             then [''Required Skills: '' @ join '', '' (required_skills j)] else []);
          parts4 = parts3 @
            (if requirements j \<noteq> [] then [''Requirements: '' @ requirements j] else [])
      in join '' '' parts4)"

text \<open>\<^verbatim>\<open>JobMatcher._generate_resume_embedding\<close> and \<^verbatim>\<open>JobMatcher._generate_job_embedding\<close>\<close>

definition generate_resume_embedding ::
  "embeddings_api \<Rightarrow> job_matcher \<Rightarrow> resume \<Rightarrow> ndarray option" where
  "generate_resume_embedding api jm r =
     generate_embedding api (embedding_gen jm) (prepare_resume_for_embedding r)"

definition generate_job_embedding ::
  "embeddings_api \<Rightarrow> job_matcher \<Rightarrow> job \<Rightarrow> ndarray option" where
  "generate_job_embedding api jm j =
     generate_embedding api (embedding_gen jm) (prepare_job_for_embedding j)"

text \<open>\<^verbatim>\<open>JobMatcher._calculate_skills_match\<close>. The inner loop with its \<^verbatim>\<open>break\<close> asks whether
  some resume skill contains the required one or is contained in it.\<close>

definition partial_hit :: "string list \<Rightarrow> string \<Rightarrow> bool" where
  "partial_hit resume_skills_lower req_skill =
     list_ex (\<lambda>res_skill. py_in req_skill res_skill \<or> py_in res_skill req_skill)
       resume_skills_lower"

fun partial_matches_loop :: "string list \<Rightarrow> string list \<Rightarrow> string list \<Rightarrow> real \<Rightarrow> real" where
  "partial_matches_loop exact_matches resume_skills_lower [] partial_matches = partial_matches"
| "partial_matches_loop exact_matches resume_skills_lower (req_skill # rest) partial_matches =
     partial_matches_loop exact_matches resume_skills_lower rest
       (if req_skill \<notin> set exact_matches \<and> partial_hit resume_skills_lower req_skill
        then partial_matches + 0.5 else partial_matches)"

definition calculate_skills_match :: "string list \<Rightarrow> string list \<Rightarrow> real" where
  "calculate_skills_match resume_skills required =
     (if required = [] then 1
      else if resume_skills = [] then 0
      else
        (let resume_skills_lower = lower_set resume_skills;
             required_skills_lower = lower_set required;
             exact_matches = filter (\<lambda>s. s \<in> set required_skills_lower) resume_skills_lower;
             partial_matches =
               partial_matches_loop exact_matches resume_skills_lower required_skills_lower 0;
             total_matches = real (length exact_matches) + partial_matches;
             match_ratio = total_matches / real (length required_skills_lower)
         in min match_ratio 1))"

text \<open>
  \<^verbatim>\<open>JobMatcher._parse_experience_years\<close>: the first match of
  \<^verbatim>\<open>(\d+)\+?\s*(?:years?|yrs?)\<close> in the lowered text, and the number its group holds.
  A match at a position takes the whole run of digits there (after a shorter run comes a
  digit, which none of \<^verbatim>\<open>+\<close>, white space, \<^verbatim>\<open>y\<close> is), then a \<^verbatim>\<open>+\<close> when there is one,
  then the whole run of white space, and needs \<^verbatim>\<open>year\<close> or \<^verbatim>\<open>yr\<close> next; the optional
  \<^verbatim>\<open>s\<close> decides nothing. \<^verbatim>\<open>findall\<close> tries the positions from the left.
\<close>

definition match_here :: "string \<Rightarrow> string option" where
  "match_here s =
     (let digits = takeWhile isdigit s;
          r1 = dropWhile isdigit s;
          r2 = (case r1 of [] \<Rightarrow> r1 | c # t \<Rightarrow> if c = CHR ''+'' then t else r1);
          r3 = dropWhile isspace r2
      in if digits = [] then None
         else if prefix ''year'' r3 \<or> prefix ''yr'' r3 then Some digits
         else None)"

fun first_match :: "string \<Rightarrow> string option" where
  "first_match [] = None"
| "first_match (c # cs) =
     (case match_here (c # cs) of Some g \<Rightarrow> Some g | None \<Rightarrow> first_match cs)"

text \<open>\<^verbatim>\<open>int(digits)\<close>\<close>

definition int_of_digits :: "string \<Rightarrow> int" where
  "int_of_digits ds = foldl (\<lambda>n c. 10 * n + (int (of_char c) - 48)) 0 ds"

definition parse_experience_years :: "string \<Rightarrow> int" where
  "parse_experience_years exp_txt =
     (case first_match (lower exp_txt) of Some g \<Rightarrow> int_of_digits g | None \<Rightarrow> 0)"

text \<open>\<^verbatim>\<open>JobMatcher._calculate_experience_match\<close>\<close>

definition calculate_experience_match :: "resume \<Rightarrow> job \<Rightarrow> real" where
  "calculate_experience_match r j =
     (if experience_required j = [] then 1
      else
        (let resume_years = int (length (experience r)) * 2;
             required_years = parse_experience_years (experience_required j)
         in if resume_years \<ge> required_years then 1
            else if real_of_int resume_years \<ge> real_of_int required_years * 0.7 then 0.8
            else if real_of_int resume_years \<ge> real_of_int required_years * 0.5 then 0.6
            else 0.4))"

text \<open>\<^verbatim>\<open>Resume.get_total_experience_years\<close>, the model class's own estimate, which the
  matcher does not call.\<close>

definition get_total_experience_years :: "resume \<Rightarrow> real" where
  "get_total_experience_years r =
     (if experience r = [] then 0 else real (length (experience r)) * 2.5)"

text \<open>\<^verbatim>\<open>JobMatcher._calculate_education_match\<close>; the dictionary of degree levels is read in
  the order it is written.\<close>

definition degree_levels :: "int pydict" where
  "degree_levels =
     [(''phd'', 5), (''doctorate'', 5), (''master'', 4), (''mba'', 4),
      (''bachelor'', 3), (''bachelors'', 3), (''associate'', 2), (''high school'', 1)]"

definition degree_level_of :: "int \<Rightarrow> string pydict \<Rightarrow> int" where
  "degree_level_of resume_level edu =
     (let degree = lower (dict_get edu ''degree'' [])
      in foldl (\<lambda>lvl (key, level). if py_in key degree then max lvl level else lvl)
           resume_level degree_levels)"

definition calculate_education_match :: "resume \<Rightarrow> job \<Rightarrow> real" where
  "calculate_education_match r j =
     (if education_required j = [] then 1
      else if education r = [] then 0.5
      else
        (let resume_level = foldl degree_level_of 0 (education r);
             req_edu_lower = lower (education_required j);
             required_level =
               (case find (\<lambda>(key, level). py_in key req_edu_lower) degree_levels of
                  Some (key, level) \<Rightarrow> level
                | None \<Rightarrow> 0)
         in if resume_level \<ge> required_level then 1
            else if resume_level \<ge> required_level - 1 then 0.7
            else 0.5))"

text \<open>\<^verbatim>\<open>JobMatcher._calculate_location_match\<close>\<close>

definition calculate_location_match :: "resume \<Rightarrow> job \<Rightarrow> real" where
  "calculate_location_match r j = (if remote j then 1 else 0.8)"

text \<open>\<^verbatim>\<open>JobMatcher._get_matched_skills\<close>: for every lowered required skill that is a key of
  the resume's dictionary, the resume's spelling of it.\<close>

definition get_matched_skills :: "string list \<Rightarrow> string list \<Rightarrow> string list" where
  "get_matched_skills resume_skills required =
     (let resume_skills_lower = lower_dict resume_skills;
          required_skills_lower = lower_set required
      in concat (map (\<lambda>req_skill_lower.
                        case map_of resume_skills_lower req_skill_lower of
                          Some s \<Rightarrow> [s]
                        | None \<Rightarrow> [])
                   required_skills_lower))"

text \<open>\<^verbatim>\<open>JobMatcher._identify_missing_skills\<close>: the job's spelling of every required skill
  that no resume skill equals, contains or is contained in, up to case.\<close>

definition identify_missing_skills :: "string list \<Rightarrow> string list \<Rightarrow> string list" where
  "identify_missing_skills resume_skills required =
     (let resume_skills_lower = lower_set resume_skills;
          required_skills_lower = lower_dict required
      in concat (map (\<lambda>(req_skill_lower, req_skill).
                        if req_skill_lower \<notin> set resume_skills_lower
                         \<and> \<not> partial_hit resume_skills_lower req_skill_lower
                        then [req_skill] else [])
                   required_skills_lower))"

text \<open>\<^verbatim>\<open>JobMatcher._generate_match_explanation\<close>\<close>

definition generate_match_explanation :: "real \<Rightarrow> real \<Rightarrow> real \<Rightarrow> real \<Rightarrow> string" where
  "generate_match_explanation skills_score experience_score education_score semantic_score =
     (let e1 = [if skills_score \<ge> 0.8 then ''Excellent skills match''
                else if skills_score \<ge> 0.6 then ''Good skills match''
                else ''Skills match needs improvement''];
          e2 = e1 @ (if experience_score \<ge> 0.8 then [''Strong experience alignment'']
                     else if experience_score \<ge> 0.6 then [''Moderate experience match'']
                     else []);
          e3 = e2 @ (if education_score \<ge> 0.8 then [''Education requirements met''] else []);
          e4 = e3 @ (if semantic_score \<ge> 0.7 then [''High semantic similarity''] else [])
      in join ''. '' e4 @ ''.'')"

text \<open>\<^verbatim>\<open>JobMatcher._calculate_confidence\<close>\<close>

definition calculate_confidence :: "real \<Rightarrow> string" where
  "calculate_confidence overall =
     (if overall \<ge> 85 then ''Very High''
      else if overall \<ge> 75 then ''High''
      else if overall \<ge> 60 then ''Medium''
      else ''Low'')"

text \<open>\<^verbatim>\<open>JobMatcher._calculate_match\<close>. The similarity raises on \<^verbatim>\<open>None\<close> and on arrays of
  different lengths; reading a weight that the configured dictionary lacks raises
  \<^verbatim>\<open>KeyError\<close>. The four weights are read in the order of the sum.\<close>

definition calculate_match ::
  "job_matcher \<Rightarrow> resume \<Rightarrow> ndarray option \<Rightarrow> job \<Rightarrow> ndarray option
     \<Rightarrow> py_exception + match_result" where
  "calculate_match jm r resume_embedding j job_embedding =
     (case cosine_similarity resume_embedding job_embedding of
        Inl e \<Rightarrow> Inl e
      | Inr semantic_score \<Rightarrow>
          (let skills_score = calculate_skills_match (skills r) (required_skills j);
               experience_score = calculate_experience_match r j;
               education_score = calculate_education_match r j;
               location_score = calculate_location_match r j;
               w = weights (config jm)
           in case dict_item w ''semantic'' of Inl e \<Rightarrow> Inl e | Inr w_semantic \<Rightarrow>
              (case dict_item w ''skills'' of Inl e \<Rightarrow> Inl e | Inr w_skills \<Rightarrow>
              (case dict_item w ''experience'' of Inl e \<Rightarrow> Inl e | Inr w_experience \<Rightarrow>
              (case dict_item w ''education'' of Inl e \<Rightarrow> Inl e | Inr w_education \<Rightarrow>
                (let overall = (semantic_score * w_semantic + skills_score * w_skills
                                + experience_score * w_experience
                                + education_score * w_education) * 100;
                     explanation_text = generate_match_explanation skills_score
                                   experience_score education_score semantic_score;
                     missing = identify_missing_skills (skills r) (required_skills j)
                 in Inr \<lparr>resume_id_m = resume_id r,
                         job_m = Some j,
                         overall_score = overall,
                         skills_match_score = skills_score * 100,
                         experience_match_score = experience_score * 100,
                         education_match_score = education_score * 100,
                         semantic_similarity_score = semantic_score * 100,
                         location_match_score = location_score * 100,
                         matched_skills = get_matched_skills (skills r) (required_skills j),
                         missing_skills = missing,
                         explanation = explanation_text,
                         confidence_level = calculate_confidence overall\<rparr>))))))"

text \<open>The loop of \<^verbatim>\<open>match_resume_to_jobs\<close> over the jobs and their embeddings: a job whose
  match raises is logged and passed over (\<^verbatim>\<open>continue\<close>), the others are appended in
  order.\<close>

fun calculate_matches ::
  "job_matcher \<Rightarrow> resume \<Rightarrow> ndarray option \<Rightarrow> (job \<times> ndarray option) list
     \<Rightarrow> match_result list" where
  "calculate_matches jm r resume_embedding [] = []"
| "calculate_matches jm r resume_embedding ((j, job_embedding) # rest) =
     (case calculate_match jm r resume_embedding j job_embedding of
        Inr match \<Rightarrow> match # calculate_matches jm r resume_embedding rest
      | Inl e \<Rightarrow> calculate_matches jm r resume_embedding rest)"

text \<open>\<^verbatim>\<open>JobMatcher.match_resume_to_jobs\<close>. \<^verbatim>\<open>top_k or self.config.top_k\<close> takes the
  configured value when the argument is \<^verbatim>\<open>None\<close> or \<^verbatim>\<open>0\<close>. The function returns the list of
  matches and nothing else.\<close>

definition match_resume_to_jobs ::
  "embeddings_api \<Rightarrow> job_matcher \<Rightarrow> resume \<Rightarrow> job list \<Rightarrow> int option \<Rightarrow> match_result list" where
  "match_resume_to_jobs api jm r jobs top_k_arg =
     (if jobs = [] then []
      else
        (let k = (case top_k_arg of
                    None \<Rightarrow> top_k (config jm)
                  | Some n \<Rightarrow> if n = 0 then top_k (config jm) else n);
             resume_embedding = generate_resume_embedding api jm r;
             job_embeddings = map (generate_job_embedding api jm) jobs;
             matches = calculate_matches jm r resume_embedding (zip jobs job_embeddings);
             ranked_matches = rank_matches matches (Some (weights (config jm)));
             filtered_matches =
               filter (\<lambda>m. overall_score m \<ge> similarity_threshold (config jm) * 100)
                 ranked_matches
         in py_slice_to filtered_matches k))"

subsection \<open>Specification of the skills score\<close>

text \<open>
  The skills score as the specification words it, on sets of skills that are already
  normalised to lower case (the specification's skill sets are case-insensitive and
  deduplicated): the exact matches are the skills the two sets share, a partial match is
  a required skill outside the candidate's set that occurs inside some candidate skill or
  has one inside it, and the score is
  \<open>min(1, (exact_count + 0.5 * partial_count) / |R|)\<close>, or 1 when nothing is required.
\<close>

definition exact_count :: "string set \<Rightarrow> string set \<Rightarrow> nat" where
  "exact_count S R = card (S \<inter> R)"

definition partial_count :: "string set \<Rightarrow> string set \<Rightarrow> nat" where
  "partial_count S R = card {r \<in> R. r \<notin> S \<and> (\<exists>s \<in> S. sublist r s \<or> sublist s r)}"

definition skills_score_spec :: "string set \<Rightarrow> string set \<Rightarrow> real" where
  "skills_score_spec S R =
     (if R = {} then 1
      else min 1 ((real (exact_count S R) + 0.5 * real (partial_count S R)) / real (card R)))"

subsection \<open>The call for one job\<close>

text \<open>The call in the \<^verbatim>\<open>try\<close> block of \<^verbatim>\<open>match_resume_to_jobs\<close> for one job, with the
  embeddings the function computed before the loop.\<close>

definition job_match ::
  "embeddings_api \<Rightarrow> job_matcher \<Rightarrow> resume \<Rightarrow> job \<Rightarrow> py_exception + match_result" where
  "job_match api jm r j =
     calculate_match jm r (generate_resume_embedding api jm r) j (generate_job_embedding api jm j)"

subsection \<open>Example data\<close>


definition scenario_weights :: "real pydict" where
  "scenario_weights =
     [(''skills'', 0.5), (''experience'', 0.3), (''education'', 0.1), (''semantic'', 0.1)]"

text \<open>Two matches that tie under the default weights (35 * 0.25 = 25 * 0.35); the first
  has the lower skills score.\<close>

definition tie_first :: match_result where
  "tie_first = MatchResult\<lparr>experience_match_score := 35\<rparr>"

definition tie_second :: match_result where
  "tie_second = MatchResult\<lparr>skills_match_score := 25\<rparr>"



text \<open>An embedding service that is down: every call raises.\<close>

definition failing_api :: embeddings_api where
  "failing_api m t = Inl APIError"

text \<open>A resume with one position and no education entry, and three jobs that score 90, 73
  and 40 against it under \<^const>\<open>scenario_weights\<close> when the semantic similarity is 0.\<close>

definition example_resume :: resume where
  "example_resume = \<lparr>resume_id = ''r1'', summary = ''Backend developer'',
     experience = [[(''title'', ''Engineer''), (''company'', ''Acme'')]],
     education = [], skills = [''Python'']\<rparr>"

definition job_90 :: job where
  "job_90 = \<lparr>job_id = ''j90'', title = ''Python Developer'', company = ''A'', remote = True,
     description = [], requirements = [], experience_required = [], education_required = [],
     required_skills = [''python'']\<rparr>"

definition job_73 :: job where
  "job_73 = \<lparr>job_id = ''j73'', title = ''Senior Python Developer'', company = ''B'',
     remote = False, description = [], requirements = [], experience_required = ''4+ years'',
     education_required = ''Bachelor'', required_skills = [''Python'']\<rparr>"

definition job_40 :: job where
  "job_40 = \<lparr>job_id = ''j40'', title = ''Rust Developer'', company = ''C'', remote = False,
     description = [], requirements = [], experience_required = [], education_required = [],
     required_skills = [''Rust'']\<rparr>"

text \<open>The matcher of the filtering scenario with the threshold as the code reads it, a
  fraction (0.5), and with the threshold as the specification writes it (50).\<close>

definition scenario_matcher :: job_matcher where
  "scenario_matcher = JobMatcher (Some (MatchingConfig 0.5 2 (Some scenario_weights)))"

definition spec_scale_matcher :: job_matcher where
  "spec_scale_matcher = JobMatcher (Some (MatchingConfig 50 2 (Some scenario_weights)))"

text \<open>An embedding service that answers one job's text with a vector of the wrong length
  and is down for every other text; and that job.\<close>

definition short_vector_api :: embeddings_api where
  "short_vector_api m t = (if py_in ''Broken'' t then Inr [1] else Inl APIError)"

definition job_broken :: job where
  "job_broken = \<lparr>job_id = ''jb'', title = ''Broken'', company = ''D'', remote = False,
     description = [], requirements = [], experience_required = [], education_required = [],
     required_skills = [''python'']\<rparr>"

text \<open>A resume with two positions and a job that asks for five years.\<close>

definition two_positions_resume :: resume where
  "two_positions_resume = \<lparr>resume_id = ''r2'', summary = [],
     experience = [[(''title'', ''Engineer'')], [(''title'', ''Senior Engineer'')]],
     education = [], skills = []\<rparr>"

definition five_years_job :: job where
  "five_years_job = \<lparr>job_id = ''j5'', title = ''Lead'', company = ''E'', remote = False,
     description = [], requirements = [], experience_required = ''5 years'',
     education_required = [], required_skills = []\<rparr>"

section \<open>Properties\<close>

subsection \<open>Cosine similarity\<close>

text \<open>The clamp \<^verbatim>\<open>max(0.0, min(1.0, x))\<close> on every float: a NaN compares smaller than
  nothing, so \<^verbatim>\<open>min\<close> keeps its first argument \<^verbatim>\<open>1.0\<close>.\<close>

lemma clamp_cases:
  "py_max (Finite 0) (py_min (Finite 1) x) =
     (case x of
        Finite q \<Rightarrow> Finite (max 0 (min 1 q))
      | NegZero \<Rightarrow> Finite 0
      | PosInf \<Rightarrow> Finite 1
      | NegInf \<Rightarrow> Finite 0
      | NaN \<Rightarrow> Finite 1)"
  by (cases x) (auto simp: py_max_def py_min_def float_gt_def float_lt_def)

lemma clamp_bounded:
  "\<exists>s. py_max (Finite 0) (py_min (Finite 1) x) = Finite s \<and> 0 \<le> s \<and> s \<le> 1
       \<and> (float_lt x (Finite 0) \<longrightarrow> s = 0)"
  by (cases x) (auto simp: clamp_cases float_lt_def)

text \<open>
  Claim C10. For two arrays of floats with the same number of elements, zero vectors
  included, and whatever numpy's floating-point operations return (NaN and the infinities
  included), \<^const>\<open>cosine_similarity_float\<close> raises nothing and returns a finite number
  between 0 and 1, so neither a negative number nor NaN. The result is exactly 0.0 as soon
  as one of the two norms compares equal to zero: the guard returns before the division.
  It is 0.0 as well whenever the quotient that the code computes is negative: the clamp.
\<close>

theorem cosine_similarity_float_bounded:
  assumes "length (flatten a) = length (flatten b)"
  shows "\<exists>s. cosine_similarity_float np (Some a) (Some b) = Inr (Finite s) \<and> 0 \<le> s \<and> s \<le> 1
           \<and> (float_eq (linalg_norm np (flatten a)) (Finite 0)
                \<or> float_eq (linalg_norm np (flatten b)) (Finite 0) \<longrightarrow> s = 0)
           \<and> (float_lt (true_divide np (dot np (flatten a) (flatten b))
                   (multiply np (linalg_norm np (flatten a)) (linalg_norm np (flatten b))))
                 (Finite 0) \<longrightarrow> s = 0)"
proof (cases "float_eq (linalg_norm np (flatten a)) (Finite 0)
                \<or> float_eq (linalg_norm np (flatten b)) (Finite 0)")
  case True
  then have "cosine_similarity_float np (Some a) (Some b) = Inr (Finite 0)"
    using assms by (auto simp: cosine_similarity_float_def Let_def)
  then show ?thesis by simp
next
  case False
  define q where "q = true_divide np (dot np (flatten a) (flatten b))
                   (multiply np (linalg_norm np (flatten a)) (linalg_norm np (flatten b)))"
  have eq: "cosine_similarity_float np (Some a) (Some b)
              = Inr (py_max (Finite 0) (py_min (Finite 1) q))"
    using assms False by (simp add: cosine_similarity_float_def Let_def q_def)
  obtain s where "py_max (Finite 0) (py_min (Finite 1) q) = Finite s" "0 \<le> s" "s \<le> 1"
    "float_lt q (Finite 0) \<longrightarrow> s = 0"
    using clamp_bounded [of q] by blast
  then show ?thesis
    using eq False unfolding q_def by auto
qed

theorem cosine_similarity_float_bounded_witness:
  "(\<exists>s. cosine_similarity_float exact_numpy (Some (Vec [Finite 3, Finite 4]))
          (Some (Vec [Finite 0, NegZero])) = Inr (Finite s) \<and> s = 0)
   \<and> (\<exists>s. cosine_similarity_float exact_numpy (Some (Vec [Finite 1, Finite 0]))
          (Some (Vec [Finite (- 1), Finite 0])) = Inr (Finite s) \<and> s = 0)"
  using cosine_similarity_float_bounded [of "Vec [Finite 3, Finite 4]" "Vec [Finite 0, NegZero]"
      exact_numpy]
    cosine_similarity_float_bounded [of "Vec [Finite 1, Finite 0]"
      "Vec [Finite (- 1), Finite 0]" exact_numpy]
  by (auto simp: exact_numpy_def np_linalg_norm_def np_dot_def float_eq_def float_lt_def)

text \<open>
  The quotient is what the code computes, not the cosine of the angle. When it is NaN,
  which is what floating-point arithmetic gives when the products overflow (the dot
  product an infinity and both norms infinite), the result is 1.0, inside the interval,
  whatever the sign of the dot product.
\<close>

lemma cosine_similarity_float_nan:
  assumes "length (flatten a) = length (flatten b)"
    and "\<not> float_eq (linalg_norm np (flatten a)) (Finite 0)"
    and "\<not> float_eq (linalg_norm np (flatten b)) (Finite 0)"
    and "true_divide np (dot np (flatten a) (flatten b))
           (multiply np (linalg_norm np (flatten a)) (linalg_norm np (flatten b))) = NaN"
  shows "cosine_similarity_float np (Some a) (Some b) = Inr (Finite 1)"
  using assms by (simp add: cosine_similarity_float_def Let_def clamp_cases)

text \<open>
  So it is for the arrays \<^verbatim>\<open>[1e200]\<close> and \<^verbatim>\<open>[-1e200]\<close>, whose cosine is -1: the products
  overflow, numpy returns \<^verbatim>\<open>-inf\<close> for the dot product and \<^verbatim>\<open>inf\<close> for both norms, the
  product of the norms is \<^verbatim>\<open>inf\<close> and the quotient NaN. With these results of numpy the
  function returns 1.0.
\<close>

lemma cosine_similarity_float_overflow:
  "cosine_similarity_float
     \<lparr>dot = (\<lambda>u v. NegInf), linalg_norm = (\<lambda>u. PosInf),
      multiply = (\<lambda>x y. PosInf), true_divide = (\<lambda>x y. NaN)\<rparr>
     (Some (Vec [Finite (10 ^ 200)])) (Some (Vec [Finite (- (10 ^ 200))])) = Inr (Finite 1)"
  by (rule cosine_similarity_float_nan) (simp_all add: float_eq_def)

text \<open>
  With the arithmetic that does not round, on arrays of finite values, the function on
  floats is \<^const>\<open>cosine_similarity\<close>, the function on reals that the matcher below is
  read with.
\<close>

lemma float_reals_Finite: "float_reals (map Finite u) = Some u"
  by (induction u) simp_all

lemma flatten_map_np_array: "flatten (map_np_array f a) = map f (flatten a)"
  by (cases a) (simp_all add: map_concat)

lemma cosine_similarity_float_exact:
  "cosine_similarity_float exact_numpy (map_option (map_np_array Finite) a)
       (map_option (map_np_array Finite) b)
     = map_sum id Finite (cosine_similarity a b)"
proof (cases a)
  case None
  then show ?thesis by (simp add: cosine_similarity_float_def cosine_similarity_def)
next
  case a: (Some vec1)
  show ?thesis
  proof (cases b)
    case None
    then show ?thesis using a by (simp add: cosine_similarity_float_def cosine_similarity_def)
  next
    case b: (Some vec2)
    show ?thesis
    proof (cases "length (flatten vec1) = length (flatten vec2)")
      case False
      then show ?thesis using a b
        by (simp add: cosine_similarity_float_def cosine_similarity_def flatten_map_np_array
            np_dot_def)
    next
      case True
      then show ?thesis using a b
        by (auto simp: cosine_similarity_float_def cosine_similarity_def flatten_map_np_array
            np_dot_def exact_numpy_def float_reals_Finite Let_def float_eq_def clamp_cases)
    qed
  qed
qed

subsection \<open>Ranking\<close>

lemma set_py_sorted_reverse: "set (py_sorted_reverse k xs) = set xs"
  by (simp add: py_sorted_reverse_def)


lemma py_sorted_reverse_descending:
  "sorted_wrt (\<lambda>a b. k b \<le> k a) (py_sorted_reverse k xs)"
proof -
  have "sorted (map k (sort_key k (rev xs)))" by simp
  then have "sorted_wrt (\<lambda>a b. k a \<le> k b) (sort_key k (rev xs))"
    by (simp add: sorted_map)
  then show ?thesis
    by (simp add: py_sorted_reverse_def sorted_wrt_rev)
qed

lemma py_sorted_reverse_stable:
  "filter (\<lambda>y. k y = c) (py_sorted_reverse k xs) = filter (\<lambda>y. k y = c) xs"
  by (simp add: py_sorted_reverse_def rev_filter [symmetric] sort_key_stable)

lemma rank_matches_eq:
  "rank_matches ms cw = py_sorted_reverse overall_score (map (rescore (get_weights cw)) ms)"
  by (simp add: rank_matches_def py_sorted_reverse_def)

lemma set_rank_matches: "set (rank_matches ms cw) = rescore (get_weights cw) ` set ms"
  by (simp add: rank_matches_eq set_py_sorted_reverse)


lemma get_weights_scenario:
  "get_weights (Some scenario_weights) =
     \<lparr>skills_w = 0.5, experience_w = 0.3, education_w = 0.1, semantic_w = 0.1\<rparr>"
  by (simp add: get_weights_def scenario_weights_def dict_get_def)



text \<open>
  Claim C2, as the code has it. The list that \<^const>\<open>rank_matches\<close> returns is sorted by
  overall score, highest first. The sort has no second key: matches with the same overall
  score come out in the order in which they came in, whatever their skills scores and job
  identifiers.
\<close>

theorem rank_matches_sorted_stable:
  "sorted_wrt (\<lambda>a b. overall_score b \<le> overall_score a) (rank_matches ms cw)
   \<and> (\<forall>c. filter (\<lambda>m. overall_score m = c) (rank_matches ms cw)
          = filter (\<lambda>m. overall_score m = c) (map (rescore (get_weights cw)) ms))"
  by (simp add: rank_matches_eq py_sorted_reverse_descending py_sorted_reverse_stable)

text \<open>
  Claim C2 as stated fails: \<^const>\<open>tie_first\<close> and \<^const>\<open>tie_second\<close> both score 8.75 under the
  default weights, and the ranking keeps \<^const>\<open>tie_first\<close>, whose skills score is 0, ahead
  of \<^const>\<open>tie_second\<close>, whose skills score is 25.
\<close>

theorem rank_matches_tie_counterexample:
  "map overall_score (rank_matches [tie_first, tie_second] None) = [35 / 4, 35 / 4]
   \<and> map skills_match_score (rank_matches [tie_first, tie_second] None) = [0, 25]"
  by (simp add: rank_matches_eq py_sorted_reverse_def get_weights_def default_weights_def
      rescore_def calculate_weighted_score_def tie_first_def tie_second_def MatchResult_def)



subsection \<open>Scoring one job\<close>

lemma calculate_match_Inr:
  assumes "cosine_similarity a b = Inr s"
    and "map_of (weights (config jm)) ''semantic'' = Some w1"
    and "map_of (weights (config jm)) ''skills'' = Some w2"
    and "map_of (weights (config jm)) ''experience'' = Some w3"
    and "map_of (weights (config jm)) ''education'' = Some w4"
  shows "calculate_match jm r a j b =
     Inr \<lparr>resume_id_m = resume_id r, job_m = Some j,
          overall_score = (s * w1 + calculate_skills_match (skills r) (required_skills j) * w2
                           + calculate_experience_match r j * w3
                           + calculate_education_match r j * w4) * 100,
          skills_match_score = calculate_skills_match (skills r) (required_skills j) * 100,
          experience_match_score = calculate_experience_match r j * 100,
          education_match_score = calculate_education_match r j * 100,
          semantic_similarity_score = s * 100,
          location_match_score = calculate_location_match r j * 100,
          matched_skills = get_matched_skills (skills r) (required_skills j),
          missing_skills = identify_missing_skills (skills r) (required_skills j),
          explanation = generate_match_explanation
             (calculate_skills_match (skills r) (required_skills j))
             (calculate_experience_match r j) (calculate_education_match r j) s,
          confidence_level = calculate_confidence
             ((s * w1 + calculate_skills_match (skills r) (required_skills j) * w2
                           + calculate_experience_match r j * w3
                           + calculate_education_match r j * w4) * 100)\<rparr>"
  using assms by (simp add: calculate_match_def dict_item_def Let_def)

lemma calculate_match_fields:
  assumes "calculate_match jm r a j b = Inr m"
  shows "job_m m = Some j"
    and "matched_skills m = get_matched_skills (skills r) (required_skills j)"
    and "missing_skills m = identify_missing_skills (skills r) (required_skills j)"
    and "\<exists>s. cosine_similarity a b = Inr s \<and> semantic_similarity_score m = s * 100"
  using assms
  by (auto simp: calculate_match_def Let_def split: sum.splits)

lemma np_linalg_norm_zeros: "np_linalg_norm (replicate n 0) = 0"
  by (simp add: np_linalg_norm_def sum_list_replicate)

lemma cosine_similarity_zeros:
  "cosine_similarity (Some (np_zeros n)) (Some b) =
     (if n = length (flatten b) then Inr 0 else Inl ValueError)"
  by (simp add: cosine_similarity_def np_zeros_def np_dot_def np_linalg_norm_zeros)

lemma cosine_zeros_zeros: "cosine_similarity (Some (np_zeros n)) (Some (np_zeros n)) = Inr 0"
  by (simp add: cosine_similarity_zeros) (simp add: np_zeros_def)

lemma generate_embedding_failing_api:
  "generate_embedding failing_api EmbeddingGenerator text = Some (np_zeros 1536)"
  by (simp add: generate_embedding_def failing_api_def EmbeddingGenerator_def)

lemma scenario_config:
  "weights (config scenario_matcher) = scenario_weights"
  "similarity_threshold (config scenario_matcher) = 0.5"
  "top_k (config scenario_matcher) = 2"
  "embedding_gen scenario_matcher = EmbeddingGenerator"
  by (simp_all add: scenario_matcher_def JobMatcher_def MatchingConfig_def)

lemma scenario_matcher_weights:
  "map_of (weights (config scenario_matcher)) ''semantic'' = Some 0.1"
  "map_of (weights (config scenario_matcher)) ''skills'' = Some 0.5"
  "map_of (weights (config scenario_matcher)) ''experience'' = Some 0.3"
  "map_of (weights (config scenario_matcher)) ''education'' = Some 0.1"
  by (simp_all add: scenario_config scenario_weights_def)

lemmas scenario_calculate_match =
  calculate_match_Inr [OF cosine_zeros_zeros [of 1536] scenario_matcher_weights]

lemmas string_defs = lower_set_def lower_def lower_char_def partial_hit_def

lemma scores_90:
  "calculate_skills_match (skills example_resume) (required_skills job_90) = 1"
  "calculate_experience_match example_resume job_90 = 1"
  "calculate_education_match example_resume job_90 = 1"
  by (simp_all add: example_resume_def job_90_def calculate_skills_match_def string_defs
      calculate_experience_match_def calculate_education_match_def)

lemma scores_40:
  "calculate_skills_match (skills example_resume) (required_skills job_40) = 0"
  "calculate_experience_match example_resume job_40 = 1"
  "calculate_education_match example_resume job_40 = 1"
  by (simp_all add: example_resume_def job_40_def calculate_skills_match_def string_defs
      calculate_experience_match_def calculate_education_match_def)

lemma scores_73:
  "calculate_skills_match (skills example_resume) (required_skills job_73) = 1"
  "calculate_experience_match example_resume job_73 = 0.6"
  "calculate_education_match example_resume job_73 = 0.5"
  by (simp_all add: example_resume_def job_73_def calculate_skills_match_def string_defs
      calculate_experience_match_def calculate_education_match_def
      parse_experience_years_def match_here_def isdigit_def isspace_def int_of_digits_def)

subsection \<open>Skills\<close>

lemma py_in_iff_sublist: "py_in sub s = sublist sub s"
  by (induction s) (auto simp: sublist_Cons_right)

lemma set_lower_set: "set (lower_set xs) = lower ` set xs"
  by (simp add: lower_set_def)

lemma distinct_lower_set: "distinct (lower_set xs)"
  by (simp add: lower_set_def)

lemma partial_hit_iff:
  "partial_hit (lower_set S) r = (\<exists>s \<in> lower ` set S. sublist r s \<or> sublist s r)"
  by (auto simp: partial_hit_def list_ex_iff set_lower_set py_in_iff_sublist)

lemma update_entries: "set (AList.update k v al) \<subseteq> insert (k, v) (set al)"
  by (induction al) auto

lemma foldl_update_entries:
  "(k, v) \<in> set (foldl (\<lambda>d s. AList.update (lower s) s d) d0 xs)
     \<Longrightarrow> (k, v) \<in> set d0 \<or> (v \<in> set xs \<and> k = lower v)"
proof (induction xs arbitrary: d0)
  case Nil
  then show ?case by simp
next
  case (Cons x xs)
  from Cons.IH [OF Cons.prems [simplified]]
  show ?case using update_entries [of "lower x" x d0] by auto
qed

lemma lower_dict_entries: "(k, v) \<in> set (lower_dict xs) \<Longrightarrow> v \<in> set xs \<and> k = lower v"
  using foldl_update_entries [of k v "[]" xs] by (simp add: lower_dict_def)

lemma foldl_update_keys:
  "fst ` set (foldl (\<lambda>d s. AList.update (lower s) s d) d0 xs) = fst ` set d0 \<union> lower ` set xs"
  by (induction xs arbitrary: d0) (auto simp: dom_update)

lemma lower_dict_keys: "fst ` set (lower_dict xs) = lower ` set xs"
  by (simp add: lower_dict_def foldl_update_keys)

lemma lower_dict_lookup:
  "map_of (lower_dict xs) k = Some v \<Longrightarrow> v \<in> set xs \<and> k = lower v"
  by (auto dest: map_of_SomeD lower_dict_entries)

lemma lower_dict_lookup_None:
  "map_of (lower_dict xs) k = None \<longleftrightarrow> k \<notin> lower ` set xs"
  by (simp add: map_of_eq_None_iff lower_dict_keys)

lemma set_get_matched_skills:
  "x \<in> set (get_matched_skills S R) \<longleftrightarrow>
     (\<exists>k \<in> lower ` set R. map_of (lower_dict S) k = Some x)"
  by (simp add: get_matched_skills_def set_lower_set split: option.splits) (metis option.inject)

lemma set_identify_missing_skills:
  "x \<in> set (identify_missing_skills S R) \<longleftrightarrow>
     (\<exists>k. (k, x) \<in> set (lower_dict R) \<and> k \<notin> lower ` set S \<and> \<not> partial_hit (lower_set S) k)"
  by (auto simp: identify_missing_skills_def set_lower_set split: if_splits)

lemma matched_lower: "x \<in> set (get_matched_skills S R) \<Longrightarrow> lower x \<in> lower ` set S \<inter> lower ` set R"
proof -
  assume "x \<in> set (get_matched_skills S R)"
  then obtain k where k: "k \<in> lower ` set R" "map_of (lower_dict S) k = Some x"
    by (auto simp: set_get_matched_skills)
  from lower_dict_lookup [OF k(2)] k(1) show ?thesis by auto
qed

lemma missing_lower:
  "x \<in> set (identify_missing_skills S R) \<Longrightarrow>
     x \<in> set R \<and> lower x \<notin> lower ` set S \<and> \<not> partial_hit (lower_set S) (lower x)"
  by (auto simp: set_identify_missing_skills dest!: lower_dict_entries)

lemma lower_matched_skills: "lower ` set (get_matched_skills S R) = lower ` set S \<inter> lower ` set R"
proof
  show "lower ` set (get_matched_skills S R) \<subseteq> lower ` set S \<inter> lower ` set R"
    using matched_lower by blast
  show "lower ` set S \<inter> lower ` set R \<subseteq> lower ` set (get_matched_skills S R)"
  proof
    fix k assume k: "k \<in> lower ` set S \<inter> lower ` set R"
    then have "map_of (lower_dict S) k \<noteq> None" by (simp add: lower_dict_lookup_None)
    then obtain v where v: "map_of (lower_dict S) k = Some v" by auto
    then have "k = lower v" by (auto dest: lower_dict_lookup)
    moreover have "v \<in> set (get_matched_skills S R)"
      using k v by (auto simp: set_get_matched_skills)
    ultimately show "k \<in> lower ` set (get_matched_skills S R)" by blast
  qed
qed

lemma lower_missing_skills:
  "lower ` set (identify_missing_skills S R) =
     {k \<in> lower ` set R. k \<notin> lower ` set S \<and> \<not> partial_hit (lower_set S) k}"
proof (intro set_eqI iffI)
  fix k assume "k \<in> lower ` set (identify_missing_skills S R)"
  then show "k \<in> {k \<in> lower ` set R. k \<notin> lower ` set S \<and> \<not> partial_hit (lower_set S) k}"
    by (auto dest!: missing_lower)
next
  fix k assume k: "k \<in> {k \<in> lower ` set R. k \<notin> lower ` set S \<and> \<not> partial_hit (lower_set S) k}"
  then have "k \<in> fst ` set (lower_dict R)" by (simp add: lower_dict_keys)
  then obtain v where v: "(k, v) \<in> set (lower_dict R)" by force
  then have "k = lower v" by (auto dest: lower_dict_entries)
  moreover have "v \<in> set (identify_missing_skills S R)"
    using k v by (auto simp: set_identify_missing_skills)
  ultimately show "k \<in> lower ` set (identify_missing_skills S R)" by blast
qed

lemma matched_missing_disjoint:
  "set (get_matched_skills S R) \<inter> set (identify_missing_skills S R) = {}"
  using matched_lower missing_lower by blast

text \<open>
  Claim C8. The list of matched skills and the list of missing skills never share an
  element, as written and up to case: a matched skill is the resume's spelling of a skill
  that resume and job share up to case, and a missing skill is the job's spelling of a
  required skill that no resume skill equals, contains or is contained in, up to case. So
  it is for the two lists of every match result that \<^const>\<open>calculate_match\<close> builds.
\<close>

theorem matched_missing_skills_disjoint:
  "set (get_matched_skills S R) \<inter> set (identify_missing_skills S R) = {}
   \<and> lower ` set (get_matched_skills S R) = lower ` set S \<inter> lower ` set R
   \<and> lower ` set (identify_missing_skills S R) =
       {k \<in> lower ` set R. k \<notin> lower ` set S
          \<and> \<not> (\<exists>s \<in> lower ` set S. sublist k s \<or> sublist s k)}
   \<and> (calculate_match jm r a j b = Inr m \<longrightarrow>
        set (matched_skills m) \<inter> set (missing_skills m) = {})"
proof (intro conjI impI)
  show "set (get_matched_skills S R) \<inter> set (identify_missing_skills S R) = {}"
    by (rule matched_missing_disjoint)
  show "lower ` set (get_matched_skills S R) = lower ` set S \<inter> lower ` set R"
    by (rule lower_matched_skills)
  show "lower ` set (identify_missing_skills S R) =
       {k \<in> lower ` set R. k \<notin> lower ` set S
          \<and> \<not> (\<exists>s \<in> lower ` set S. sublist k s \<or> sublist s k)}"
    by (simp add: lower_missing_skills partial_hit_iff)
  assume "calculate_match jm r a j b = Inr m"
  then show "set (matched_skills m) \<inter> set (missing_skills m) = {}"
    by (simp add: calculate_match_fields matched_missing_disjoint)
qed

theorem matched_missing_skills_disjoint_witness:
  "\<exists>m. calculate_match scenario_matcher example_resume (Some (np_zeros 1536)) job_40
          (Some (np_zeros 1536)) = Inr m
       \<and> missing_skills m = [''Rust''] \<and> matched_skills m = []
       \<and> set (matched_skills m) \<inter> set (missing_skills m) = {}"
proof -
  obtain m where m: "calculate_match scenario_matcher example_resume (Some (np_zeros 1536))
      job_40 (Some (np_zeros 1536)) = Inr m"
    using scenario_calculate_match [of example_resume job_40] by blast
  from matched_missing_skills_disjoint [of "[]" "[]" scenario_matcher example_resume
      "Some (np_zeros 1536)" job_40 "Some (np_zeros 1536)" m] m
  have disjoint: "set (matched_skills m) \<inter> set (missing_skills m) = {}" by blast
  have "missing_skills m = [''Rust'']"
    using calculate_match_fields(3) [OF m]
    by (simp add: example_resume_def job_40_def identify_missing_skills_def lower_dict_def
        string_defs)
  moreover have "matched_skills m = []"
    using calculate_match_fields(2) [OF m]
    by (simp add: example_resume_def job_40_def get_matched_skills_def lower_dict_def
        string_defs)
  ultimately show ?thesis using m disjoint by blast
qed

lemma partial_matches_loop_count:
  "partial_matches_loop E Sl Rl acc =
     acc + 0.5 * real (length (filter (\<lambda>r. r \<notin> set E \<and> partial_hit Sl r) Rl))"
  by (induction Rl arbitrary: acc) (simp_all add: algebra_simps)

lemma exact_matches_count:
  "length (filter (\<lambda>s. s \<in> set (lower_set R)) (lower_set S))
     = exact_count (lower ` set S) (lower ` set R)"
proof -
  have "distinct (filter (\<lambda>s. s \<in> set (lower_set R)) (lower_set S))"
    by (simp add: distinct_lower_set)
  then have "length (filter (\<lambda>s. s \<in> set (lower_set R)) (lower_set S))
      = card (set (filter (\<lambda>s. s \<in> set (lower_set R)) (lower_set S)))"
    by (rule distinct_card [symmetric])
  also have "set (filter (\<lambda>s. s \<in> set (lower_set R)) (lower_set S))
      = lower ` set S \<inter> lower ` set R"
    by (auto simp: set_lower_set)
  finally show ?thesis by (simp add: exact_count_def)
qed

lemma partial_matches_count:
  "length (filter (\<lambda>r. r \<notin> set (filter (\<lambda>s. s \<in> set (lower_set R)) (lower_set S))
                        \<and> partial_hit (lower_set S) r) (lower_set R))
     = partial_count (lower ` set S) (lower ` set R)"
proof -
  let ?P = "\<lambda>r. r \<notin> set (filter (\<lambda>s. s \<in> set (lower_set R)) (lower_set S))
                 \<and> partial_hit (lower_set S) r"
  have "distinct (filter ?P (lower_set R))"
    by (simp add: distinct_lower_set)
  then have "length (filter ?P (lower_set R)) = card (set (filter ?P (lower_set R)))"
    by (rule distinct_card [symmetric])
  also have "set (filter ?P (lower_set R))
      = {r \<in> lower ` set R. r \<notin> lower ` set S
           \<and> (\<exists>s \<in> lower ` set S. sublist r s \<or> sublist s r)}"
    by (auto simp: set_lower_set partial_hit_iff)
  finally show ?thesis by (simp add: partial_count_def)
qed

lemma skills_example:
  "calculate_skills_match [''Python'', ''AWS''] [''Python'', ''Django'', ''AWS''] = 2 / 3"
  by (simp add: calculate_skills_match_def lower_set_def lower_def lower_char_def partial_hit_def)

text \<open>
  Claim C3. On every list of candidate skills and every list of required skills the code
  computes the specification's score of the two sets of lower-cased skills: 1 when nothing
  is required, otherwise \<open>min(1, (exact_count + 0.5 * partial_count) / |R|)\<close>. The
  candidate skills Python and AWS score 2/3 against the required Python, Django and AWS.
\<close>

theorem calculate_skills_match_refines_spec:
  "calculate_skills_match S R = skills_score_spec (lower ` set S) (lower ` set R)
   \<and> calculate_skills_match S [] = 1
   \<and> calculate_skills_match [''Python'', ''AWS''] [''Python'', ''Django'', ''AWS''] = 2 / 3"
proof (intro conjI)
  show "calculate_skills_match S R = skills_score_spec (lower ` set S) (lower ` set R)"
  proof (cases "R = []")
    case True
    then show ?thesis by (simp add: calculate_skills_match_def skills_score_spec_def)
  next
    case R: False
    show ?thesis
    proof (cases "S = []")
      case True
      with R show ?thesis
        by (simp add: calculate_skills_match_def skills_score_spec_def exact_count_def
            partial_count_def)
    next
      case False
      have card: "length (lower_set R) = card (lower ` set R)"
        using distinct_card [OF distinct_lower_set [of R]] by (simp add: set_lower_set)
      have nonempty: "lower ` set R \<noteq> {}" using R by simp
      have "calculate_skills_match S R =
          min ((real (length (filter (\<lambda>s. s \<in> set (lower_set R)) (lower_set S)))
                + (0 + 0.5 * real (length (filter
                    (\<lambda>r. r \<notin> set (filter (\<lambda>s. s \<in> set (lower_set R)) (lower_set S))
                         \<and> partial_hit (lower_set S) r) (lower_set R)))))
               / real (length (lower_set R))) 1"
        using R False
        by (simp only: calculate_skills_match_def Let_def partial_matches_loop_count if_False)
      also have "\<dots> = skills_score_spec (lower ` set S) (lower ` set R)"
        using nonempty
        by (simp only: exact_matches_count partial_matches_count card skills_score_spec_def
            if_False min.commute add_0)
      finally show ?thesis .
    qed
  qed
  show "calculate_skills_match S [] = 1"
    by (simp add: calculate_skills_match_def)
  show "calculate_skills_match [''Python'', ''AWS''] [''Python'', ''Django'', ''AWS''] = 2 / 3"
    by (rule skills_example)
qed

subsection \<open>The whole call\<close>

lemma set_py_slice_to: "set (py_slice_to xs k) \<subseteq> set xs"
  by (auto simp: py_slice_to_def dest: in_set_takeD)

lemma py_slice_to_nonneg: "0 \<le> k \<Longrightarrow> py_slice_to xs k = take (nat k) xs"
  by (simp add: py_slice_to_def)

lemma set_calculate_matches:
  "m \<in> set (calculate_matches jm r re ps) \<longleftrightarrow>
     (\<exists>(j, je) \<in> set ps. calculate_match jm r re j je = Inr m)"
  by (induction ps) (auto split: sum.splits)

lemma calculate_matches_filter:
  "calculate_matches jm r re (zip js (map g js)) =
     calculate_matches jm r re
       (zip (filter (\<lambda>j. \<not> isl (calculate_match jm r re j (g j))) js)
            (map g (filter (\<lambda>j. \<not> isl (calculate_match jm r re j (g j))) js)))"
  by (induction js) (auto split: sum.splits)

lemma length_calculate_matches:
  "(\<forall>(j, je) \<in> set ps. \<not> isl (calculate_match jm r re j je))
     \<Longrightarrow> length (calculate_matches jm r re ps) = length ps"
  by (induction ps) (auto split: sum.splits)

lemma match_resume_to_jobs_eq:
  "match_resume_to_jobs api jm r jobs top_k_arg =
     py_slice_to
       (filter (\<lambda>m. similarity_threshold (config jm) * 100 \<le> overall_score m)
          (rank_matches
             (calculate_matches jm r (generate_resume_embedding api jm r)
                (zip jobs (map (generate_job_embedding api jm) jobs)))
             (Some (weights (config jm)))))
       (case top_k_arg of
          None \<Rightarrow> top_k (config jm)
        | Some n \<Rightarrow> if n = 0 then top_k (config jm) else n)"
  by (cases "jobs = []")
     (simp_all add: match_resume_to_jobs_def Let_def rank_matches_def py_slice_to_def)

lemma set_zip_map: "set (zip js (map g js)) = (\<lambda>j. (j, g j)) ` set js"
  by (induction js) auto

lemma match_resume_to_jobs_origin:
  assumes "m \<in> set (match_resume_to_jobs api jm r jobs top_k_arg)"
  shows "\<exists>j \<in> set jobs. \<exists>m0. job_match api jm r j = Inr m0
            \<and> m = rescore (get_weights (Some (weights (config jm)))) m0"
proof -
  from assms have "m \<in> set (rank_matches
             (calculate_matches jm r (generate_resume_embedding api jm r)
                (zip jobs (map (generate_job_embedding api jm) jobs)))
             (Some (weights (config jm))))"
    using set_py_slice_to by (fastforce simp: match_resume_to_jobs_eq)
  then obtain m0 where m0: "m = rescore (get_weights (Some (weights (config jm)))) m0"
      "m0 \<in> set (calculate_matches jm r (generate_resume_embedding api jm r)
                (zip jobs (map (generate_job_embedding api jm) jobs)))"
    by (auto simp: set_rank_matches)
  from m0(2) obtain j je where j: "(j, je) \<in> set (zip jobs (map (generate_job_embedding api jm) jobs))"
      "calculate_match jm r (generate_resume_embedding api jm r) j je = Inr m0"
    by (auto simp: set_calculate_matches)
  from j(1) have "j \<in> set jobs" "je = generate_job_embedding api jm j"
    by (auto simp: set_zip_map)
  with j(2) m0(1) show ?thesis by (auto simp: job_match_def)
qed

lemma scenario_overall_scores:
  "map overall_score (rank_matches
      (calculate_matches scenario_matcher example_resume (Some (np_zeros 1536))
         [(job_40, Some (np_zeros 1536)), (job_90, Some (np_zeros 1536)),
          (job_73, Some (np_zeros 1536))])
      (Some scenario_weights)) = [90, 73, 40]"
  by (simp add: scenario_calculate_match scores_90 scores_73 scores_40
        rank_matches_def py_sorted_reverse_def rescore_def get_weights_scenario
        calculate_weighted_score_def)

lemma scenario_result:
  "map overall_score (match_resume_to_jobs failing_api scenario_matcher example_resume
      [job_40, job_90, job_73] None) = [90, 73]"
  by (simp add: match_resume_to_jobs_def generate_resume_embedding_def generate_job_embedding_def
        scenario_config generate_embedding_failing_api py_slice_to_def
        scenario_calculate_match scores_90 scores_73 scores_40
        rank_matches_def py_sorted_reverse_def rescore_def get_weights_scenario
        calculate_weighted_score_def)

text \<open>
  Claim C4, as the code has it. \<^const>\<open>match_resume_to_jobs\<close> ranks the scored matches,
  keeps those whose overall score is at least \<open>similarity_threshold * 100\<close> (the
  threshold of the configuration is a fraction between 0 and 1, 0.7 by default), and
  returns the first \<open>k\<close> of them, where \<open>k\<close> is the argument \<open>top_k\<close> or, when that is
  \<^verbatim>\<open>None\<close> or 0, the configured one; for \<open>k \<ge> 0\<close> the result has at most \<open>k\<close> entries.
  With \<open>top_k = 2\<close>, threshold 0.5 and jobs that score 40, 90 and 73, the result is the two
  matches that score 90 and 73, in that order.
\<close>

theorem match_resume_to_jobs_threshold_top_k:
  assumes "k = (case top_k_arg of
                  None \<Rightarrow> top_k (config jm)
                | Some n \<Rightarrow> if n = 0 then top_k (config jm) else n)"
    and "0 \<le> k"
  shows "match_resume_to_jobs api jm r jobs top_k_arg =
           take (nat k)
             (filter (\<lambda>m. similarity_threshold (config jm) * 100 \<le> overall_score m)
                (rank_matches
                   (calculate_matches jm r (generate_resume_embedding api jm r)
                      (zip jobs (map (generate_job_embedding api jm) jobs)))
                   (Some (weights (config jm)))))
       \<and> length (match_resume_to_jobs api jm r jobs top_k_arg) \<le> nat k
       \<and> (\<forall>m \<in> set (match_resume_to_jobs api jm r jobs top_k_arg).
             similarity_threshold (config jm) * 100 \<le> overall_score m)
       \<and> map overall_score (match_resume_to_jobs failing_api scenario_matcher example_resume
             [job_40, job_90, job_73] None) = [90, 73]"
proof -
  have eq: "match_resume_to_jobs api jm r jobs top_k_arg =
           take (nat k)
             (filter (\<lambda>m. similarity_threshold (config jm) * 100 \<le> overall_score m)
                (rank_matches
                   (calculate_matches jm r (generate_resume_embedding api jm r)
                      (zip jobs (map (generate_job_embedding api jm) jobs)))
                   (Some (weights (config jm)))))"
    using assms by (simp only: match_resume_to_jobs_eq py_slice_to_nonneg)
  have len: "length (match_resume_to_jobs api jm r jobs top_k_arg) \<le> nat k"
    by (simp add: eq)
  have thr: "\<forall>m \<in> set (match_resume_to_jobs api jm r jobs top_k_arg).
             similarity_threshold (config jm) * 100 \<le> overall_score m"
    by (auto simp: eq dest: in_set_takeD)
  from eq len thr scenario_result show ?thesis by blast
qed

theorem match_resume_to_jobs_threshold_top_k_witness:
  "length (match_resume_to_jobs failing_api scenario_matcher example_resume
      [job_40, job_90, job_73] None) \<le> nat 2
   \<and> map overall_score (match_resume_to_jobs failing_api scenario_matcher example_resume
      [job_40, job_90, job_73] None) = [90, 73]"
proof -
  have k: "2 = (case None of
                  None \<Rightarrow> top_k (config scenario_matcher)
                | Some n \<Rightarrow> if n = 0 then top_k (config scenario_matcher) else n)"
    by (simp add: scenario_config)
  have nonneg: "(0::int) \<le> 2" by simp
  note inst = match_resume_to_jobs_threshold_top_k [OF k nonneg, of failing_api example_resume
      "[job_40, job_90, job_73]"]
  from inst have "length (match_resume_to_jobs failing_api scenario_matcher example_resume
      [job_40, job_90, job_73] None) \<le> nat 2"
    by (elim conjE)
  moreover from inst have "map overall_score (match_resume_to_jobs failing_api scenario_matcher
      example_resume [job_40, job_90, job_73] None) = [90, 73]"
    by (elim conjE)
  ultimately show ?thesis by (rule conjI)
qed

lemma spec_scale_config:
  "weights (config spec_scale_matcher) = scenario_weights"
  "similarity_threshold (config spec_scale_matcher) = 50"
  "top_k (config spec_scale_matcher) = 2"
  "embedding_gen spec_scale_matcher = EmbeddingGenerator"
  by (simp_all add: spec_scale_matcher_def JobMatcher_def MatchingConfig_def)

lemma spec_scale_matcher_weights:
  "map_of (weights (config spec_scale_matcher)) ''semantic'' = Some 0.1"
  "map_of (weights (config spec_scale_matcher)) ''skills'' = Some 0.5"
  "map_of (weights (config spec_scale_matcher)) ''experience'' = Some 0.3"
  "map_of (weights (config spec_scale_matcher)) ''education'' = Some 0.1"
  by (simp_all add: spec_scale_config scenario_weights_def)

text \<open>
  Claim C4 as stated fails: with the threshold written on the scale of 0 to 100, as 50, the
  code compares the scores with 5000, and of the three matches that score 90, 73 and 40
  none is returned.
\<close>

theorem threshold_scale_counterexample:
  "map overall_score (rank_matches
      (calculate_matches spec_scale_matcher example_resume
         (generate_resume_embedding failing_api spec_scale_matcher example_resume)
         (zip [job_40, job_90, job_73]
            (map (generate_job_embedding failing_api spec_scale_matcher)
               [job_40, job_90, job_73])))
      (Some (weights (config spec_scale_matcher)))) = [90, 73, 40]
   \<and> top_k (config spec_scale_matcher) = 2
   \<and> similarity_threshold (config spec_scale_matcher) = 50
   \<and> match_resume_to_jobs failing_api spec_scale_matcher example_resume
        [job_40, job_90, job_73] None = []"
  by (simp add: match_resume_to_jobs_def generate_resume_embedding_def generate_job_embedding_def
        spec_scale_config generate_embedding_failing_api py_slice_to_def
        calculate_match_Inr [OF cosine_zeros_zeros [of 1536] spec_scale_matcher_weights]
        scores_90 scores_73 scores_40
        rank_matches_def py_sorted_reverse_def rescore_def get_weights_scenario
        calculate_weighted_score_def)

subsection \<open>An exception while one job is scored\<close>

text \<open>
  Claim C9, as the code has it. A job whose scoring raises is passed over by the loop of
  \<^const>\<open>match_resume_to_jobs\<close> and the other jobs are scored and ranked: the call returns
  what it returns on the list without the jobs that raise, and every match it returns
  belongs to a job of the list whose scoring did not raise. The exception is written to the
  log; the value returned is the list of matches alone, with no list of skipped jobs.
\<close>

theorem scoring_errors_isolated:
  "match_resume_to_jobs api jm r jobs top_k_arg =
     match_resume_to_jobs api jm r (filter (\<lambda>j. \<not> isl (job_match api jm r j)) jobs) top_k_arg
   \<and> (\<forall>m \<in> set (match_resume_to_jobs api jm r jobs top_k_arg).
         \<exists>j \<in> set jobs. job_m m = Some j \<and> \<not> isl (job_match api jm r j))"
proof
  show "match_resume_to_jobs api jm r jobs top_k_arg =
     match_resume_to_jobs api jm r (filter (\<lambda>j. \<not> isl (job_match api jm r j)) jobs) top_k_arg"
    unfolding match_resume_to_jobs_eq job_match_def
    by (subst calculate_matches_filter) (rule refl)
  show "\<forall>m \<in> set (match_resume_to_jobs api jm r jobs top_k_arg).
         \<exists>j \<in> set jobs. job_m m = Some j \<and> \<not> isl (job_match api jm r j)"
  proof
    fix m assume "m \<in> set (match_resume_to_jobs api jm r jobs top_k_arg)"
    from match_resume_to_jobs_origin [OF this]
    obtain j m0 where j: "j \<in> set jobs" "job_match api jm r j = Inr m0"
        "m = rescore (get_weights (Some (weights (config jm)))) m0"
      by blast
    from j(2) have "job_m m0 = Some j"
      by (simp add: job_match_def calculate_match_fields)
    with j show "\<exists>j \<in> set jobs. job_m m = Some j \<and> \<not> isl (job_match api jm r j)"
      by (auto simp: rescore_def)
  qed
qed

lemma short_vector_embeddings:
  "generate_resume_embedding short_vector_api scenario_matcher example_resume
     = Some (np_zeros 1536)"
  "generate_job_embedding short_vector_api scenario_matcher job_90 = Some (np_zeros 1536)"
  "generate_job_embedding short_vector_api scenario_matcher job_40 = Some (np_zeros 1536)"
  "generate_job_embedding short_vector_api scenario_matcher job_broken = Some (Vec [1])"
  by (simp_all add: generate_resume_embedding_def generate_job_embedding_def scenario_config
      generate_embedding_def EmbeddingGenerator_def short_vector_api_def
      prepare_resume_for_embedding_def prepare_job_for_embedding_def exp_text_def dict_get_def
      example_resume_def job_90_def job_40_def job_broken_def strip_def isspace_def)

lemma short_vector_job_matches:
  "job_match short_vector_api scenario_matcher example_resume job_broken = Inl ValueError"
  "\<not> isl (job_match short_vector_api scenario_matcher example_resume job_90)"
  "\<not> isl (job_match short_vector_api scenario_matcher example_resume job_40)"
  by (simp_all add: job_match_def short_vector_embeddings scenario_calculate_match)
     (simp add: calculate_match_def cosine_similarity_zeros)

theorem scoring_errors_isolated_witness:
  "isl (job_match short_vector_api scenario_matcher example_resume job_broken)
   \<and> match_resume_to_jobs short_vector_api scenario_matcher example_resume
        [job_90, job_broken, job_40] None
     = match_resume_to_jobs short_vector_api scenario_matcher example_resume
        [job_90, job_40] None"
proof -
  note inst = scoring_errors_isolated [of short_vector_api scenario_matcher example_resume
      "[job_90, job_broken, job_40]" None]
  have "filter (\<lambda>j. \<not> isl (job_match short_vector_api scenario_matcher example_resume j))
      [job_90, job_broken, job_40] = [job_90, job_40]"
    by (simp add: short_vector_job_matches)
  with inst show ?thesis by (simp add: short_vector_job_matches(1))
qed

text \<open>
  Claim C9 as stated fails: no list of skipped jobs is returned. The embedding of
  \<^const>\<open>job_broken\<close> has one element where the resume's has 1536, so scoring it raises
  \<^verbatim>\<open>ValueError\<close>; the call on the three jobs returns the one match of \<^const>\<open>job_90\<close> (the
  match of \<^const>\<open>job_40\<close> scores 40, under the threshold), which is also all that the call
  without \<^const>\<open>job_broken\<close> returns: nothing in the value tells that a job was skipped.
\<close>

theorem no_diagnostics_counterexample:
  "job_match short_vector_api scenario_matcher example_resume job_broken = Inl ValueError
   \<and> map job_m (match_resume_to_jobs short_vector_api scenario_matcher example_resume
        [job_90, job_broken, job_40] None) = [Some job_90]
   \<and> map job_m (match_resume_to_jobs short_vector_api scenario_matcher example_resume
        [job_90, job_40] None) = [Some job_90]"
  by (simp add: short_vector_job_matches(1))
     (simp add: match_resume_to_jobs_def short_vector_embeddings scenario_config py_slice_to_def
        scenario_calculate_match scores_90 scores_40 cosine_similarity_zeros
        calculate_match_def [of _ _ _ job_broken]
        rank_matches_def py_sorted_reverse_def rescore_def get_weights_scenario
        calculate_weighted_score_def)

subsection \<open>An embedding service that fails\<close>

lemma generate_embedding_api_down:
  assumes "provider g = ''openai''" and "\<forall>t. isl (api (model g) t)"
  shows "generate_embedding api g text = Some (np_zeros (dimension g))"
proof -
  from assms(2) obtain e where "api (model g) (take 8000 text) = Inl e"
    by (metis sum.collapse(1))
  with assms(1) show ?thesis by (simp add: generate_embedding_def)
qed

text \<open>
  Claim C6, as the code has it. When the call to the embedding service raises for every
  text, the \<^verbatim>\<open>except\<close> clause of \<^verbatim>\<open>generate_embedding\<close> answers each text of a batch, empty
  or not, with the zero vector of the generator's dimension, and nothing is raised. The
  enclosing \<^const>\<open>match_resume_to_jobs\<close> goes on with these vectors and returns its matches,
  each with the semantic sub-score 0.
\<close>

theorem embedding_failure_gives_zero_vectors:
  assumes "provider (embedding_gen jm) = ''openai''"
    and "\<forall>t. isl (api (model (embedding_gen jm)) t)"
  shows "generate_batch_embeddings api (embedding_gen jm) texts
           = map (\<lambda>t. Some (np_zeros (dimension (embedding_gen jm)))) texts
       \<and> (\<forall>m \<in> set (match_resume_to_jobs api jm r jobs top_k_arg).
             semantic_similarity_score m = 0)"
proof
  show "generate_batch_embeddings api (embedding_gen jm) texts
           = map (\<lambda>t. Some (np_zeros (dimension (embedding_gen jm)))) texts"
    using assms by (simp add: generate_batch_embeddings_def generate_embedding_api_down)
  show "\<forall>m \<in> set (match_resume_to_jobs api jm r jobs top_k_arg).
             semantic_similarity_score m = 0"
  proof
    fix m assume "m \<in> set (match_resume_to_jobs api jm r jobs top_k_arg)"
    from match_resume_to_jobs_origin [OF this]
    obtain j m0 where j: "job_match api jm r j = Inr m0"
        "m = rescore (get_weights (Some (weights (config jm)))) m0"
      by blast
    let ?z = "Some (np_zeros (dimension (embedding_gen jm)))"
    from j(1) have "calculate_match jm r ?z j ?z = Inr m0"
      using assms
      by (simp add: job_match_def generate_resume_embedding_def generate_job_embedding_def
          generate_embedding_api_down)
    from calculate_match_fields(4) [OF this]
    have "semantic_similarity_score m0 = 0" by (simp add: cosine_zeros_zeros)
    with j(2) show "semantic_similarity_score m = 0" by (simp add: rescore_def)
  qed
qed

theorem embedding_failure_gives_zero_vectors_witness:
  "generate_batch_embeddings failing_api EmbeddingGenerator [''Python developer'', ''Rust'']
     = [Some (np_zeros 1536), Some (np_zeros 1536)]
   \<and> map semantic_similarity_score (match_resume_to_jobs failing_api scenario_matcher
        example_resume [job_40, job_90, job_73] None) = [0, 0]"
proof -
  have p: "provider (embedding_gen scenario_matcher) = ''openai''"
    by (simp add: scenario_config EmbeddingGenerator_def)
  have f: "\<forall>t. isl (failing_api (model (embedding_gen scenario_matcher)) t)"
    by (simp add: failing_api_def)
  note inst = embedding_failure_gives_zero_vectors [where jm = scenario_matcher
      and api = failing_api and texts = "[''Python developer'', ''Rust'']"
      and r = example_resume and jobs = "[job_40, job_90, job_73]" and top_k_arg = None,
      OF p f]
  let ?res = "match_resume_to_jobs failing_api scenario_matcher example_resume
        [job_40, job_90, job_73] None"
  have "length ?res = 2"
    using arg_cong [OF scenario_result, of length] by simp
  moreover from inst have "\<forall>m \<in> set ?res. semantic_similarity_score m = 0"
    by (elim conjE)
  ultimately have "map semantic_similarity_score ?res = [0, 0]"
    by (cases ?res; cases "tl ?res") auto
  moreover from inst have "generate_batch_embeddings failing_api EmbeddingGenerator
      [''Python developer'', ''Rust''] = [Some (np_zeros 1536), Some (np_zeros 1536)]"
    by (simp add: scenario_config EmbeddingGenerator_def)
  ultimately show ?thesis by simp
qed

text \<open>
  Claim C6 as stated fails: with the service down, the text \<^verbatim>\<open>Python developer\<close>, which is
  not empty, gets the zero vector and no exception, and the call on the three jobs of the
  scenario returns the matches of two of them and no failure.
\<close>

theorem zero_vectors_on_failure_counterexample:
  "strip ''Python developer'' \<noteq> []
   \<and> failing_api ''text-embedding-3-small'' ''Python developer'' = Inl APIError
   \<and> generate_embedding failing_api EmbeddingGenerator ''Python developer''
       = Some (np_zeros 1536)
   \<and> map job_m (match_resume_to_jobs failing_api scenario_matcher example_resume
        [job_40, job_90, job_73] None) = [Some job_90, Some job_73]"
  by (simp add: strip_def isspace_def failing_api_def generate_embedding_failing_api)
     (simp add: match_resume_to_jobs_def generate_resume_embedding_def generate_job_embedding_def
        scenario_config generate_embedding_failing_api py_slice_to_def
        scenario_calculate_match scores_90 scores_73 scores_40
        rank_matches_def py_sorted_reverse_def rescore_def get_weights_scenario
        calculate_weighted_score_def)

subsection \<open>Years of experience\<close>

text \<open>
  Claim C7. The matcher counts two years for each experience entry, where the claim and
  \<^verbatim>\<open>Resume.get_total_experience_years\<close> count two and a half. For a resume with two entries
  and a job that asks for \<^verbatim>\<open>5 years\<close>, the model class gives 5 years, with which the step
  function of the claim would return 1.0; the matcher computes 4 years, which is under 5
  and at least 3.5, and returns 0.8.
\<close>

theorem experience_years_evaluation:
  "parse_experience_years (experience_required five_years_job) = 5
   \<and> get_total_experience_years two_positions_resume = 5
   \<and> calculate_experience_match two_positions_resume five_years_job = 0.8"
  by (simp add: five_years_job_def two_positions_resume_def get_total_experience_years_def
      calculate_experience_match_def parse_experience_years_def match_here_def
      lower_def lower_char_def isdigit_def isspace_def int_of_digits_def)

end
